theory Spec2Isabelle
  imports Main "HOL-Library.Word" "HOL-Library.Signed_Division"
begin

section \<open>Data model of \<^verbatim>\<open>main.go\<close>\<close>

text \<open>
  The program is one function, \<^verbatim>\<open>HandleRequest\<close>, with four collaborators that live
  outside the repository: \<^verbatim>\<open>json.Unmarshal\<close>, \<^verbatim>\<open>time.Time.String\<close>, the Slack
  client's \<^verbatim>\<open>Send\<close> and the three loggers. The first three are parameters of the
  model; the loggers and \<^verbatim>\<open>Send\<close> are recorded in a trace of effects, in the order
  the code performs them.
\<close>

text \<open>\<^verbatim>\<open>type EMREventDetail struct\<close> (lines 44 to 48).\<close>

record EMREventDetail =
  Severity :: string
  State :: string
  Message :: string

text \<open>
  The fields of \<^verbatim>\<open>events.CloudWatchEvent\<close> that the handler reads. \<^verbatim>\<open>Time\<close> is a
  \<^verbatim>\<open>time.Time\<close>, kept opaque as the type parameter; \<^verbatim>\<open>Detail\<close> is the raw bytes.
\<close>

record 't CloudWatchEvent =
  Source :: string
  DetailType :: string
  AccountID :: string
  Region :: string
  Time :: 't
  Detail :: string

text \<open>\<^verbatim>\<open>slack.AttachmentField\<close>, \<^verbatim>\<open>slack.Attachment\<close> and \<^verbatim>\<open>slack.Payload\<close>, with the
  fields the handler sets. We write \<^verbatim>\<open>FieldTitle\<close> for the field's \<^verbatim>\<open>Title\<close>, which
  would clash with the attachment's.\<close>

record AttachmentField =
  FieldTitle :: string
  Value :: string
  Short :: bool

record Attachment =
  Color :: string
  Title :: string
  Text :: string
  Footer :: string
  FooterIcon :: string
  Ts :: "64 word"
  AttachmentField :: "AttachmentField list"

record Payload =
  Channel :: string
  Attachments :: "Attachment list"

text \<open>
  What one invocation reads from the process: the two environment variables and the
  clock. \<^verbatim>\<open>now_UnixNano\<close> is the \<^verbatim>\<open>int64\<close> that \<^verbatim>\<open>time.Now().UnixNano()\<close> returns
  at line 96.
\<close>

record process =
  AWS_LAMBDA_FUNCTION_NAME :: string
  slackMonitorChannel :: string
  now_UnixNano :: "64 word"

text \<open>
  The observable effects: a call of \<^verbatim>\<open>Send\<close> with its payload, and a line on one of
  the three loggers. A Go \<^verbatim>\<open>error\<close> is represented by its message; the response of
  the client is the type parameter.
\<close>

datatype 'r effect =
    SendCall Payload
  | ErrorPrintln string
  | InfoPrintln 'r
  | WarningPrintln string

type_synonym unmarshal = "string \<Rightarrow> EMREventDetail \<Rightarrow> string option \<times> EMREventDetail"

type_synonym ('w, 'r) client = "'w \<Rightarrow> Payload \<Rightarrow> (string + 'r) \<times> 'w"

section \<open>The handler\<close>

text \<open>\<^verbatim>\<open>slackAttachmentsChunkSize = 100\<close> (line 65).\<close>

definition slackAttachmentsChunkSize :: nat where
  "slackAttachmentsChunkSize = 100"

text \<open>Division of two \<^verbatim>\<open>int64\<close>, which truncates towards zero.\<close>

definition int64_div :: "64 word \<Rightarrow> 64 word \<Rightarrow> 64 word" where
  "int64_div a b = word_of_int (sint a sdiv sint b)"

text \<open>\<^verbatim>\<open>int64(time.Second)\<close>: a second in nanoseconds.\<close>

definition time_Second :: "64 word" where
  "time_Second = 1000000000"

text \<open>The zero value \<^verbatim>\<open>EMREventDetail{}\<close> (line 78).\<close>

definition zero_EMREventDetail :: EMREventDetail where
  "zero_EMREventDetail = \<lparr>Severity = [], State = [], Message = []\<rparr>"

text \<open>Lines 85 to 88.\<close>

definition color :: "EMREventDetail \<Rightarrow> string" where
  "color emrEventDetail =
     (if Severity emrEventDetail = ''ERROR'' then ''danger'' else ''good'')"

text \<open>Lines 90 to 119.\<close>

definition slackAttachment ::
  "('t \<Rightarrow> string) \<Rightarrow> process \<Rightarrow> 't CloudWatchEvent \<Rightarrow> EMREventDetail \<Rightarrow> Attachment" where
  "slackAttachment time_String p event emrEventDetail =
     \<lparr>Color = color emrEventDetail,
      Title = DetailType event,
      Text = Message emrEventDetail,
      Footer = AWS_LAMBDA_FUNCTION_NAME p,
      FooterIcon = ''https://d1d05r7k0qlw4w.cloudfront.net/dist-cbe91c5a8477701757ff6752aae4c6f892018972/img/favicon.ico'',
      Ts = int64_div (now_UnixNano p) time_Second,
      AttachmentField =
        [\<lparr>FieldTitle = ''AccountID'', Value = AccountID event, Short = True\<rparr>,
         \<lparr>FieldTitle = ''Region'', Value = Region event, Short = True\<rparr>,
         \<lparr>FieldTitle = ''State'', Value = State emrEventDetail, Short = True\<rparr>,
         \<lparr>FieldTitle = ''Time'', Value = time_String (Time event), Short = True\<rparr>]\<rparr>"

text \<open>
  Lines 75 to 121: the list \<^verbatim>\<open>slackAttachments\<close> as it stands at line 123, or the
  error of \<^verbatim>\<open>json.Unmarshal\<close> on which the handler returns at line 82.
\<close>

definition slackAttachments ::
  "unmarshal \<Rightarrow> ('t \<Rightarrow> string) \<Rightarrow> process \<Rightarrow> 't CloudWatchEvent \<Rightarrow> string + Attachment list" where
  "slackAttachments json_Unmarshal time_String p event =
     (if Source event = ''aws.emr'' then
        (case json_Unmarshal (Detail event) zero_EMREventDetail of
           (Some err, _) \<Rightarrow> Inl err
         | (None, emrEventDetail) \<Rightarrow>
             Inr ([] @ [slackAttachment time_String p event emrEventDetail]))
      else Inr [])"

text \<open>Lines 127 to 136: the payload of the iteration that starts at index \<open>i\<close>.\<close>

definition payload :: "string \<Rightarrow> Attachment list \<Rightarrow> nat \<Rightarrow> Payload" where
  "payload channel atts i =
     (let end = (if i + slackAttachmentsChunkSize > length atts then length atts
                 else i + slackAttachmentsChunkSize)
      in \<lparr>Channel = channel, Attachments = take (end - i) (drop i atts)\<rparr>)"

text \<open>Lines 138 to 142: what is logged for the result of \<^verbatim>\<open>Send\<close>.\<close>

definition log_result :: "string + 'r \<Rightarrow> 'r effect" where
  "log_result r = (case r of Inl err \<Rightarrow> ErrorPrintln err | Inr resp \<Rightarrow> InfoPrintln resp)"

text \<open>
  Lines 126 to 143: the loop, from index \<open>i\<close>, with the trace so far and the state of
  the client. The indices are far below \<open>2 ^ 63\<close>, so \<^verbatim>\<open>int\<close> is \<open>nat\<close> here.
\<close>

function chunk_loop ::
  "('w, 'r) client \<Rightarrow> string \<Rightarrow> Attachment list \<Rightarrow> nat \<Rightarrow> 'r effect list \<times> 'w
     \<Rightarrow> 'r effect list \<times> 'w" where
  "chunk_loop send channel atts i (tr, w) =
     (if i < length atts then
        chunk_loop send channel atts (i + slackAttachmentsChunkSize)
          (tr @ [SendCall (payload channel atts i),
                 log_result (fst (send w (payload channel atts i)))],
           snd (send w (payload channel atts i)))
      else (tr, w))"
  by pat_completeness auto
termination
  by (relation "measure (\<lambda>(send, channel, atts, i, s). length atts - i)")
     (auto simp: slackAttachmentsChunkSize_def)

text \<open>
  \<^verbatim>\<open>HandleRequest\<close> (lines 74 to 148): the trace, the client's state afterwards, and
  the returned \<^verbatim>\<open>error\<close> (\<open>None\<close> is \<^verbatim>\<open>nil\<close>). The context argument is never
  read by the code and is left out.
\<close>

definition HandleRequest ::
  "unmarshal \<Rightarrow> ('t \<Rightarrow> string) \<Rightarrow> ('w, 'r) client \<Rightarrow> process \<Rightarrow> 't CloudWatchEvent \<Rightarrow> 'w
     \<Rightarrow> ('r effect list \<times> 'w) \<times> string option" where
  "HandleRequest json_Unmarshal time_String send p event w =
     (case slackAttachments json_Unmarshal time_String p event of
        Inl err \<Rightarrow> (([ErrorPrintln err], w), None)
      | Inr atts \<Rightarrow>
          (if length atts \<noteq> 0 then
             (chunk_loop send (slackMonitorChannel p) atts 0 ([], w), None)
           else (([WarningPrintln ''No Slack Sent''], w), None)))"

text \<open>The payloads of the \<^verbatim>\<open>Send\<close> calls of a trace, in order.\<close>

fun sends :: "'r effect list \<Rightarrow> Payload list" where
  "sends [] = []"
| "sends (SendCall pl # tr) = pl # sends tr"
| "sends (_ # tr) = sends tr"

text \<open>The attachments that a trace sent, over all its \<^verbatim>\<open>Send\<close> calls, in order.\<close>

definition sent_attachments :: "'r effect list \<Rightarrow> Attachment list" where
  "sent_attachments tr = concat (map Attachments (sends tr))"

text \<open>
  The number of iterations that the loop still makes from index \<open>i\<close> over a list of
  length \<open>l\<close>: the indices \<open>i\<close>, \<open>i + 100\<close>, ... below \<open>l\<close>.
\<close>

definition chunk_count :: "nat \<Rightarrow> nat \<Rightarrow> nat" where
  "chunk_count l i = (l - i + (slackAttachmentsChunkSize - 1)) div slackAttachmentsChunkSize"

declare chunk_loop.simps [simp del]

section \<open>Traces and their \<^verbatim>\<open>Send\<close> calls\<close>

lemma sends_append: "sends (tr @ tr') = sends tr @ sends tr'"
  by (induction tr rule: sends.induct) simp_all

lemma sends_log_result: "sends [log_result r] = []"
  by (cases r) (simp_all add: log_result_def)

section \<open>The loop\<close>

lemma payload_eq:
  "payload channel atts i = \<lparr>Channel = channel, Attachments = take 100 (drop i atts)\<rparr>"
  by (simp add: payload_def Let_def slackAttachmentsChunkSize_def)

lemma concat_chunks:
  "concat (map (\<lambda>k. take c (drop (c * k) xs)) [0..<n]) = take (c * n) xs"
proof (induction n)
  case 0
  show ?case by simp
next
  case (Suc n)
  have "take (c * n + c) xs = take (c * n) xs @ take c (drop (c * n) xs)"
    by (rule take_add)
  with Suc show ?case by (simp add: add.commute)
qed

lemma chunk_count_step:
  "i < l \<Longrightarrow> chunk_count l i = Suc (chunk_count l (i + slackAttachmentsChunkSize))"
  unfolding chunk_count_def slackAttachmentsChunkSize_def by (cases "i + 100 \<le> l") simp_all

lemma chunk_count_done: "\<not> i < l \<Longrightarrow> chunk_count l i = 0"
  by (simp add: chunk_count_def slackAttachmentsChunkSize_def)

lemma chunk_loop_trace_append:
  "chunk_loop send channel atts i (tr, w) =
     (tr @ fst (chunk_loop send channel atts i ([], w)),
      snd (chunk_loop send channel atts i ([], w)))"
proof (induction "length atts - i" arbitrary: i tr w rule: less_induct)
  case less
  show ?case
  proof (cases "i < length atts")
    case True
    let ?pl = "payload channel atts i"
    let ?step = "[SendCall ?pl, log_result (fst (send w ?pl))]"
    let ?w' = "snd (send w ?pl)"
    let ?j = "i + slackAttachmentsChunkSize"
    have smaller: "length atts - ?j < length atts - i"
      using True by (simp add: slackAttachmentsChunkSize_def)
    have a: "chunk_loop send channel atts i (tr, w) =
        chunk_loop send channel atts ?j (tr @ ?step, ?w')"
      using True by (simp add: chunk_loop.simps [of _ _ _ i])
    have b: "chunk_loop send channel atts i ([], w) =
        chunk_loop send channel atts ?j (?step, ?w')"
      using True by (simp add: chunk_loop.simps [of _ _ _ i])
    have c: "chunk_loop send channel atts ?j (tr @ ?step, ?w') =
        ((tr @ ?step) @ fst (chunk_loop send channel atts ?j ([], ?w')),
         snd (chunk_loop send channel atts ?j ([], ?w')))"
      by (rule less [OF smaller])
    have d: "chunk_loop send channel atts ?j (?step, ?w') =
        (?step @ fst (chunk_loop send channel atts ?j ([], ?w')),
         snd (chunk_loop send channel atts ?j ([], ?w')))"
      by (rule less [OF smaller])
    show ?thesis by (simp add: a b c d)
  next
    case False
    then show ?thesis by (simp add: chunk_loop.simps [of _ _ _ i])
  qed
qed

lemma chunk_loop_sends:
  "sends (fst (chunk_loop send channel atts i (tr, w))) =
     sends tr @ map (\<lambda>k. payload channel atts (i + slackAttachmentsChunkSize * k))
                  [0..<chunk_count (length atts) i]"
proof (induction send channel atts i "(tr, w)" arbitrary: tr w rule: chunk_loop.induct)
  case (1 send channel atts i tr w)
  show ?case
  proof (cases "i < length atts")
    case True
    let ?pl = "payload channel atts i"
    let ?step = "[SendCall ?pl, log_result (fst (send w ?pl))]"
    let ?w' = "snd (send w ?pl)"
    have a: "chunk_loop send channel atts i (tr, w) =
        chunk_loop send channel atts (i + slackAttachmentsChunkSize) (tr @ ?step, ?w')"
      using True by (simp add: chunk_loop.simps [of _ _ _ i])
    have ih: "sends (fst (chunk_loop send channel atts (i + slackAttachmentsChunkSize) (tr @ ?step, ?w'))) =
        sends (tr @ ?step) @
        map (\<lambda>k. payload channel atts (i + slackAttachmentsChunkSize + slackAttachmentsChunkSize * k))
          [0..<chunk_count (length atts) (i + slackAttachmentsChunkSize)]"
      by (rule "1.hyps" [OF True])
    have s: "sends (tr @ ?step) = sends tr @ [?pl]"
      using sends_log_result [of "fst (send w ?pl)"] by (simp add: sends_append)
    have m: "map (\<lambda>k. payload channel atts (i + slackAttachmentsChunkSize * k))
          [0..<Suc (chunk_count (length atts) (i + slackAttachmentsChunkSize))] =
        ?pl # map (\<lambda>k. payload channel atts (i + slackAttachmentsChunkSize + slackAttachmentsChunkSize * k))
          [0..<chunk_count (length atts) (i + slackAttachmentsChunkSize)]"
      by (simp add: map_upt_Suc add.assoc del: upt_Suc)
    show ?thesis
      by (simp only: a ih s chunk_count_step [OF True] m append_assoc append_Cons append_Nil)
  next
    case False
    then show ?thesis
      by (simp add: chunk_loop.simps [of _ _ _ i] chunk_count_done)
  qed
qed

text \<open>
  C2: over any list of attachments the loop makes \<open>\<lceil>L / 100\<rceil>\<close> calls of \<^verbatim>\<open>Send\<close>; the
  \<open>k\<close>-th payload carries the slice of at most 100 attachments that starts at index
  \<open>100 * k\<close>, no slice is empty, every slice but the last has exactly 100, and the
  slices in order make up the list again.
\<close>

theorem chunk_loop_partitions:
  "length (sends (fst (chunk_loop send channel atts 0 ([], w)))) = (length atts + 99) div 100 \<and>
   (\<forall>k < length (sends (fst (chunk_loop send channel atts 0 ([], w)))).
      sends (fst (chunk_loop send channel atts 0 ([], w))) ! k =
        \<lparr>Channel = channel, Attachments = take 100 (drop (100 * k) atts)\<rparr> \<and>
      length (take 100 (drop (100 * k) atts)) \<le> 100 \<and>
      take 100 (drop (100 * k) atts) \<noteq> [] \<and>
      (Suc k < length (sends (fst (chunk_loop send channel atts 0 ([], w)))) \<longrightarrow>
         length (take 100 (drop (100 * k) atts)) = 100)) \<and>
   concat (map Attachments (sends (fst (chunk_loop send channel atts 0 ([], w))))) = atts"
proof -
  let ?n = "(length atts + 99) div 100"
  let ?ps = "sends (fst (chunk_loop send channel atts 0 ([], w)))"
  have n: "chunk_count (length atts) 0 = ?n"
    by (simp add: chunk_count_def slackAttachmentsChunkSize_def)
  have ps: "?ps = map (\<lambda>k. \<lparr>Channel = channel, Attachments = take 100 (drop (100 * k) atts)\<rparr>) [0..<?n]"
    using chunk_loop_sends [of send channel atts 0 "[]" w]
    by (simp add: n payload_eq slackAttachmentsChunkSize_def)
  have len: "length ?ps = ?n"
    by (simp add: ps)
  have nth: "?ps ! k = \<lparr>Channel = channel, Attachments = take 100 (drop (100 * k) atts)\<rparr>"
    if "k < ?n" for k
    using that by (simp add: ps)
  have nonempty: "take 100 (drop (100 * k) atts) \<noteq> []" if "k < ?n" for k
  proof -
    from that have "100 * k < length atts" by arith
    then show ?thesis by simp
  qed
  have full: "length (take 100 (drop (100 * k) atts)) = 100" if "Suc k < ?n" for k
  proof -
    from that have "100 * k + 100 \<le> length atts" by arith
    then show ?thesis by simp
  qed
  have "concat (map Attachments ?ps) = take (100 * ?n) atts"
    by (simp add: ps comp_def concat_chunks)
  moreover have "length atts \<le> 100 * ?n"
    by arith
  ultimately have all: "concat (map Attachments ?ps) = atts"
    by simp
  show ?thesis
    using len nth nonempty full all by simp
qed

theorem chunk_loop_partitions_witness:
  "length (sends (fst (chunk_loop (\<lambda>(w :: nat) pl. (Inr ''ok'' :: string + string, Suc w)) ''#emr'' (replicate 250 \<lparr>Color = ''good'', Title = ''t'', Text = ''m'', Footer = ''f'', FooterIcon = ''i'', Ts = 0, AttachmentField = []\<rparr>) 0 ([], 0)))) = 3 \<and>
   (2 :: nat) < 3 \<and>
   sends (fst (chunk_loop (\<lambda>(w :: nat) pl. (Inr ''ok'' :: string + string, Suc w)) ''#emr'' (replicate 250 \<lparr>Color = ''good'', Title = ''t'', Text = ''m'', Footer = ''f'', FooterIcon = ''i'', Ts = 0, AttachmentField = []\<rparr>) 0 ([], 0))) ! 2 = \<lparr>Channel = ''#emr'', Attachments = replicate 50 \<lparr>Color = ''good'', Title = ''t'', Text = ''m'', Footer = ''f'', FooterIcon = ''i'', Ts = 0, AttachmentField = []\<rparr>\<rparr> \<and>
   concat (map Attachments (sends (fst (chunk_loop (\<lambda>(w :: nat) pl. (Inr ''ok'' :: string + string, Suc w)) ''#emr'' (replicate 250 \<lparr>Color = ''good'', Title = ''t'', Text = ''m'', Footer = ''f'', FooterIcon = ''i'', Ts = 0, AttachmentField = []\<rparr>) 0 ([], 0))))) = replicate 250 \<lparr>Color = ''good'', Title = ''t'', Text = ''m'', Footer = ''f'', FooterIcon = ''i'', Ts = 0, AttachmentField = []\<rparr>"
proof -
  note t = chunk_loop_partitions [of "(\<lambda>(w :: nat) pl. (Inr ''ok'' :: string + string, Suc w))" "''#emr''" "replicate 250 \<lparr>Color = ''good'', Title = ''t'', Text = ''m'', Footer = ''f'', FooterIcon = ''i'', Ts = 0, AttachmentField = []\<rparr>" 0]
  from t have len: "length (sends (fst (chunk_loop (\<lambda>(w :: nat) pl. (Inr ''ok'' :: string + string, Suc w)) ''#emr'' (replicate 250 \<lparr>Color = ''good'', Title = ''t'', Text = ''m'', Footer = ''f'', FooterIcon = ''i'', Ts = 0, AttachmentField = []\<rparr>) 0 ([], 0)))) = 3"
    by simp
  from t len have "sends (fst (chunk_loop (\<lambda>(w :: nat) pl. (Inr ''ok'' :: string + string, Suc w)) ''#emr'' (replicate 250 \<lparr>Color = ''good'', Title = ''t'', Text = ''m'', Footer = ''f'', FooterIcon = ''i'', Ts = 0, AttachmentField = []\<rparr>) 0 ([], 0))) ! 2 = \<lparr>Channel = ''#emr'', Attachments = take 100 (drop (100 * 2) (replicate 250 \<lparr>Color = ''good'', Title = ''t'', Text = ''m'', Footer = ''f'', FooterIcon = ''i'', Ts = 0, AttachmentField = []\<rparr>))\<rparr>"
    by simp
  with t len show ?thesis
    by simp
qed

text \<open>
  C4: when \<^verbatim>\<open>Send\<close> returns an error for the slice at index \<open>i\<close>, the trace so far is
  kept, the call and the logged error are appended, and the loop goes on from index
  \<open>i + 100\<close> with the client as the failed call left it: each later slice is sent once,
  in order, and the next one right after the logged error.
\<close>

theorem chunk_loop_continues_after_error:
  assumes "i < length atts"
    and "send w (payload channel atts i) = (Inl err, w')"
  shows "fst (chunk_loop send channel atts i (tr, w)) =
      tr @ SendCall (payload channel atts i) # ErrorPrintln err #
        fst (chunk_loop send channel atts (i + 100) ([], w')) \<and>
    sends (fst (chunk_loop send channel atts (i + 100) ([], w'))) =
      map (\<lambda>k. payload channel atts (i + 100 + 100 * k)) [0..<(length atts - Suc i) div 100] \<and>
    (i + 100 < length atts \<longrightarrow>
      (\<exists>rest. fst (chunk_loop send channel atts (i + 100) ([], w')) =
         SendCall (payload channel atts (i + 100)) # rest))"
proof -
  let ?pl = "payload channel atts i"
  have "chunk_loop send channel atts i (tr, w) =
      chunk_loop send channel atts (i + 100) (tr @ [SendCall ?pl, ErrorPrintln err], w')"
    using assms
    by (simp add: chunk_loop.simps [of _ _ _ i] log_result_def slackAttachmentsChunkSize_def)
  then have a: "fst (chunk_loop send channel atts i (tr, w)) =
      tr @ SendCall ?pl # ErrorPrintln err # fst (chunk_loop send channel atts (i + 100) ([], w'))"
    using chunk_loop_trace_append [of send channel atts "i + 100" "tr @ [SendCall ?pl, ErrorPrintln err]" w']
    by simp
  have "chunk_count (length atts) (i + 100) = (length atts - Suc i) div 100"
    using assms(1) unfolding chunk_count_def slackAttachmentsChunkSize_def by arith
  then have b: "sends (fst (chunk_loop send channel atts (i + 100) ([], w'))) =
      map (\<lambda>k. payload channel atts (i + 100 + 100 * k)) [0..<(length atts - Suc i) div 100]"
    using chunk_loop_sends [of send channel atts "i + 100" "[]" w']
    by (simp add: slackAttachmentsChunkSize_def)
  have c: "\<exists>rest. fst (chunk_loop send channel atts (i + 100) ([], w')) =
      SendCall (payload channel atts (i + 100)) # rest" if "i + 100 < length atts"
    using that
    by (simp add: chunk_loop.simps [of _ _ _ "i + 100"]
        chunk_loop_trace_append [of _ _ _ "i + 100 + slackAttachmentsChunkSize" "_ # _"])
  show ?thesis
    using a b c by simp
qed

theorem chunk_loop_continues_after_error_witness:
  "(fst (chunk_loop (\<lambda>(w :: nat) pl. (Inl ''timeout'' :: string + string, Suc w)) ''#emr'' (replicate 150 \<lparr>Color = ''good'', Title = ''t'', Text = ''m'', Footer = ''f'', FooterIcon = ''i'', Ts = 0, AttachmentField = []\<rparr>) 0 ([], 0))) =
     [SendCall \<lparr>Channel = ''#emr'', Attachments = replicate 100 \<lparr>Color = ''good'', Title = ''t'', Text = ''m'', Footer = ''f'', FooterIcon = ''i'', Ts = 0, AttachmentField = []\<rparr>\<rparr>, ErrorPrintln ''timeout''] @
       (fst (chunk_loop (\<lambda>(w :: nat) pl. (Inl ''timeout'' :: string + string, Suc w)) ''#emr'' (replicate 150 \<lparr>Color = ''good'', Title = ''t'', Text = ''m'', Footer = ''f'', FooterIcon = ''i'', Ts = 0, AttachmentField = []\<rparr>) 100 ([], 1))) \<and>
   sends (fst (chunk_loop (\<lambda>(w :: nat) pl. (Inl ''timeout'' :: string + string, Suc w)) ''#emr'' (replicate 150 \<lparr>Color = ''good'', Title = ''t'', Text = ''m'', Footer = ''f'', FooterIcon = ''i'', Ts = 0, AttachmentField = []\<rparr>) 100 ([], 1))) = [\<lparr>Channel = ''#emr'', Attachments = replicate 50 \<lparr>Color = ''good'', Title = ''t'', Text = ''m'', Footer = ''f'', FooterIcon = ''i'', Ts = 0, AttachmentField = []\<rparr>\<rparr>] \<and>
   (\<exists>rest. (fst (chunk_loop (\<lambda>(w :: nat) pl. (Inl ''timeout'' :: string + string, Suc w)) ''#emr'' (replicate 150 \<lparr>Color = ''good'', Title = ''t'', Text = ''m'', Footer = ''f'', FooterIcon = ''i'', Ts = 0, AttachmentField = []\<rparr>) 100 ([], 1))) = SendCall \<lparr>Channel = ''#emr'', Attachments = replicate 50 \<lparr>Color = ''good'', Title = ''t'', Text = ''m'', Footer = ''f'', FooterIcon = ''i'', Ts = 0, AttachmentField = []\<rparr>\<rparr> # rest)"
  using chunk_loop_continues_after_error
    [of 0 "replicate 150 \<lparr>Color = ''good'', Title = ''t'', Text = ''m'', Footer = ''f'', FooterIcon = ''i'', Ts = 0, AttachmentField = []\<rparr>" "(\<lambda>(w :: nat) pl. (Inl ''timeout'' :: string + string, Suc w))" 0 "''#emr''" "''timeout''" 1 "[]"]
  by (simp add: payload_eq)

section \<open>The three paths of the handler\<close>

lemma sint_int64_div:
  "sint (int64_div a time_Second) = sint a sdiv 1000000000"
proof -
  have b: "sint time_Second = 1000000000"
    by (simp add: time_Second_def)
  have lo: "- 9223372036854775808 \<le> sint a" and hi: "sint a < 9223372036854775808"
    using sint_ge [of a] sint_lt [of a] by simp_all
  have "\<bar>sint a sdiv 1000000000\<bar> \<le> \<bar>sint a\<bar> div 1000000000"
    by (simp add: signed_divide_int_def abs_mult abs_sgn_eq)
  moreover have "\<bar>sint a\<bar> div 1000000000 < 9223372036854775808"
    using lo hi by arith
  ultimately have q: "\<bar>sint a sdiv 1000000000\<bar> < 9223372036854775808"
    by linarith
  have "signed_take_bit 63 (sint a sdiv 1000000000) = sint a sdiv 1000000000"
  proof (rule signed_take_bit_int_eq_self)
    show "- (2 ^ 63) \<le> sint a sdiv 1000000000"
      using q by simp
    show "sint a sdiv 1000000000 < 2 ^ 63"
      using q by simp
  qed
  then show ?thesis
    by (simp add: int64_div_def b sint_sbintrunc')
qed

lemma chunk_loop_single:
  "chunk_loop send channel [a] 0 ([], w) =
     ([SendCall \<lparr>Channel = channel, Attachments = [a]\<rparr>,
       log_result (fst (send w \<lparr>Channel = channel, Attachments = [a]\<rparr>))],
      snd (send w \<lparr>Channel = channel, Attachments = [a]\<rparr>))"
  by (simp add: chunk_loop.simps [of _ _ _ 0] chunk_loop.simps [of _ _ _ 100]
      payload_eq slackAttachmentsChunkSize_def)

lemma HandleRequest_decoded:
  assumes "Source event = ''aws.emr''"
    and "json_Unmarshal (Detail event) zero_EMREventDetail = (None, d)"
  shows "HandleRequest json_Unmarshal time_String send p event w =
    (let pl = \<lparr>Channel = slackMonitorChannel p,
               Attachments = [slackAttachment time_String p event d]\<rparr>
     in (([SendCall pl, log_result (fst (send w pl))], snd (send w pl)), None))"
  using assms by (simp add: HandleRequest_def slackAttachments_def chunk_loop_single Let_def)

lemma sent_attachments_decoded:
  assumes "Source event = ''aws.emr''"
    and "json_Unmarshal (Detail event) zero_EMREventDetail = (None, d)"
  shows "sent_attachments (fst (fst (HandleRequest json_Unmarshal time_String send p event w))) =
    [slackAttachment time_String p event d]"
  by (simp add: HandleRequest_decoded [of event json_Unmarshal d, OF assms] Let_def
      sent_attachments_def sends_log_result)
text \<open>
  The path of lines 80 to 83, for a decoder that returns an error. Which bytes make
  \<^verbatim>\<open>json.Unmarshal\<close> return one is the library's matter and is not modelled.
\<close>

lemma HandleRequest_decode_error:
  assumes "Source event = ''aws.emr''"
    and "json_Unmarshal (Detail event) zero_EMREventDetail = (Some err, d)"
  shows "slackAttachments json_Unmarshal time_String p event = Inl err"
    and "HandleRequest json_Unmarshal time_String send p event w = (([ErrorPrintln err], w), None)"
  using assms by (simp_all add: HandleRequest_def slackAttachments_def)

lemma HandleRequest_other_source:
  assumes "Source event \<noteq> ''aws.emr''"
  shows "slackAttachments json_Unmarshal time_String p event = Inr []"
    and "HandleRequest json_Unmarshal time_String send p event w =
      (([WarningPrintln ''No Slack Sent''], w), None)"
  using assms by (simp_all add: HandleRequest_def slackAttachments_def)

section \<open>The invocation never fails\<close>

text \<open>
  C1: for every event, every behaviour of the decoder and every behaviour of the
  client, \<^verbatim>\<open>HandleRequest\<close> returns \<^verbatim>\<open>nil\<close>.
\<close>

theorem HandleRequest_returns_nil:
  "snd (HandleRequest json_Unmarshal time_String send p event w) = None"
  by (simp add: HandleRequest_def split: sum.split)


theorem HandleRequest_returns_nil_witness:
  "snd (HandleRequest (\<lambda>b z. if b = ''{invalid'' then (Some ''unexpected end of JSON input'', z) else (None, z\<lparr>Severity := ''ERROR'', State := ''TERMINATED'', Message := ''boom''\<rparr>)) (\<lambda>t :: nat. ''2018-11-01 00:00:00 +0000 UTC'') (\<lambda>(w :: nat) pl. (Inl ''timeout'' :: string + string, Suc w)) \<lparr>AWS_LAMBDA_FUNCTION_NAME = ''notifier'', slackMonitorChannel = ''#emr'', now_UnixNano = 1541000000123456789\<rparr> \<lparr>Source = ''aws.emr'', DetailType = ''EMR Cluster State Change'', AccountID = ''123456789012'', Region = ''us-east-1'', Time = 0 :: nat, Detail = ''{}''\<rparr> 0) = None"
  by (rule HandleRequest_returns_nil)

section \<open>The attachment\<close>

text \<open>
  C3: for an event of source \<^verbatim>\<open>aws.emr\<close> that decodes to \<open>d\<close>, the one attachment sent
  has colour \<^verbatim>\<open>danger\<close> when the severity of \<open>d\<close> is \<^verbatim>\<open>ERROR\<close> and \<^verbatim>\<open>good\<close> for
  every other severity.
\<close>

theorem color_danger_iff_ERROR:
  assumes "Source event = ''aws.emr''"
    and "json_Unmarshal (Detail event) zero_EMREventDetail = (None, d)"
  shows "map Color (sent_attachments
      (fst (fst (HandleRequest json_Unmarshal time_String send p event w)))) =
    [if Severity d = ''ERROR'' then ''danger'' else ''good'']"
  by (simp add: sent_attachments_decoded [of event json_Unmarshal d, OF assms]
      slackAttachment_def color_def)

theorem color_danger_iff_ERROR_witness:
  "map Color (sent_attachments (fst (fst (HandleRequest (\<lambda>b z. if b = ''{invalid'' then (Some ''unexpected end of JSON input'', z) else (None, z\<lparr>Severity := ''ERROR'', State := ''TERMINATED'', Message := ''boom''\<rparr>)) (\<lambda>t :: nat. ''2018-11-01 00:00:00 +0000 UTC'') (\<lambda>(w :: nat) pl. (Inr ''ok'' :: string + string, Suc w)) \<lparr>AWS_LAMBDA_FUNCTION_NAME = ''notifier'', slackMonitorChannel = ''#emr'', now_UnixNano = 1541000000123456789\<rparr> \<lparr>Source = ''aws.emr'', DetailType = ''EMR Cluster State Change'', AccountID = ''123456789012'', Region = ''us-east-1'', Time = 0 :: nat, Detail = ''{}''\<rparr> 0)))) = [''danger'']"
  using color_danger_iff_ERROR [of "\<lparr>Source = ''aws.emr'', DetailType = ''EMR Cluster State Change'', AccountID = ''123456789012'', Region = ''us-east-1'', Time = 0 :: nat, Detail = ''{}''\<rparr>" "(\<lambda>b z. if b = ''{invalid'' then (Some ''unexpected end of JSON input'', z) else (None, z\<lparr>Severity := ''ERROR'', State := ''TERMINATED'', Message := ''boom''\<rparr>))" "\<lparr>Severity = ''ERROR'', State = ''TERMINATED'', Message = ''boom''\<rparr>" "(\<lambda>t :: nat. ''2018-11-01 00:00:00 +0000 UTC'')" "(\<lambda>(w :: nat) pl. (Inr ''ok'' :: string + string, Suc w))" "\<lparr>AWS_LAMBDA_FUNCTION_NAME = ''notifier'', slackMonitorChannel = ''#emr'', now_UnixNano = 1541000000123456789\<rparr>" 0]
  by (simp add: zero_EMREventDetail_def)

text \<open>
  C8: for an event of source \<^verbatim>\<open>aws.emr\<close> that decodes to \<open>d\<close>, the attachment's title is
  the event's detail type, its text is the message of \<open>d\<close>, and its fields are
  AccountID, Region, State and Time, in this order and all short.
\<close>

theorem attachment_title_text_fields:
  assumes "Source event = ''aws.emr''"
    and "json_Unmarshal (Detail event) zero_EMREventDetail = (None, d)"
  shows "map Title (sent_attachments
        (fst (fst (HandleRequest json_Unmarshal time_String send p event w)))) =
      [DetailType event] \<and>
    map Text (sent_attachments
        (fst (fst (HandleRequest json_Unmarshal time_String send p event w)))) =
      [Message d] \<and>
    map AttachmentField (sent_attachments
        (fst (fst (HandleRequest json_Unmarshal time_String send p event w)))) =
      [[\<lparr>FieldTitle = ''AccountID'', Value = AccountID event, Short = True\<rparr>,
        \<lparr>FieldTitle = ''Region'', Value = Region event, Short = True\<rparr>,
        \<lparr>FieldTitle = ''State'', Value = State d, Short = True\<rparr>,
        \<lparr>FieldTitle = ''Time'', Value = time_String (Time event), Short = True\<rparr>]]"
  by (simp add: sent_attachments_decoded [of event json_Unmarshal d, OF assms]
      slackAttachment_def)

theorem attachment_title_text_fields_witness:
  "map Title (sent_attachments (fst (fst (HandleRequest (\<lambda>b z. if b = ''{invalid'' then (Some ''unexpected end of JSON input'', z) else (None, z\<lparr>Severity := ''ERROR'', State := ''TERMINATED'', Message := ''boom''\<rparr>)) (\<lambda>t :: nat. ''2018-11-01 00:00:00 +0000 UTC'') (\<lambda>(w :: nat) pl. (Inr ''ok'' :: string + string, Suc w)) \<lparr>AWS_LAMBDA_FUNCTION_NAME = ''notifier'', slackMonitorChannel = ''#emr'', now_UnixNano = 1541000000123456789\<rparr> \<lparr>Source = ''aws.emr'', DetailType = ''EMR Cluster State Change'', AccountID = ''123456789012'', Region = ''us-east-1'', Time = 0 :: nat, Detail = ''{}''\<rparr> 0)))) = [''EMR Cluster State Change''] \<and>
   map Text (sent_attachments (fst (fst (HandleRequest (\<lambda>b z. if b = ''{invalid'' then (Some ''unexpected end of JSON input'', z) else (None, z\<lparr>Severity := ''ERROR'', State := ''TERMINATED'', Message := ''boom''\<rparr>)) (\<lambda>t :: nat. ''2018-11-01 00:00:00 +0000 UTC'') (\<lambda>(w :: nat) pl. (Inr ''ok'' :: string + string, Suc w)) \<lparr>AWS_LAMBDA_FUNCTION_NAME = ''notifier'', slackMonitorChannel = ''#emr'', now_UnixNano = 1541000000123456789\<rparr> \<lparr>Source = ''aws.emr'', DetailType = ''EMR Cluster State Change'', AccountID = ''123456789012'', Region = ''us-east-1'', Time = 0 :: nat, Detail = ''{}''\<rparr> 0)))) = [''boom''] \<and>
   map AttachmentField (sent_attachments (fst (fst (HandleRequest (\<lambda>b z. if b = ''{invalid'' then (Some ''unexpected end of JSON input'', z) else (None, z\<lparr>Severity := ''ERROR'', State := ''TERMINATED'', Message := ''boom''\<rparr>)) (\<lambda>t :: nat. ''2018-11-01 00:00:00 +0000 UTC'') (\<lambda>(w :: nat) pl. (Inr ''ok'' :: string + string, Suc w)) \<lparr>AWS_LAMBDA_FUNCTION_NAME = ''notifier'', slackMonitorChannel = ''#emr'', now_UnixNano = 1541000000123456789\<rparr> \<lparr>Source = ''aws.emr'', DetailType = ''EMR Cluster State Change'', AccountID = ''123456789012'', Region = ''us-east-1'', Time = 0 :: nat, Detail = ''{}''\<rparr> 0)))) =
     [[\<lparr>FieldTitle = ''AccountID'', Value = ''123456789012'', Short = True\<rparr>,
       \<lparr>FieldTitle = ''Region'', Value = ''us-east-1'', Short = True\<rparr>,
       \<lparr>FieldTitle = ''State'', Value = ''TERMINATED'', Short = True\<rparr>,
       \<lparr>FieldTitle = ''Time'', Value = ''2018-11-01 00:00:00 +0000 UTC'', Short = True\<rparr>]]"
  using attachment_title_text_fields [of "\<lparr>Source = ''aws.emr'', DetailType = ''EMR Cluster State Change'', AccountID = ''123456789012'', Region = ''us-east-1'', Time = 0 :: nat, Detail = ''{}''\<rparr>" "(\<lambda>b z. if b = ''{invalid'' then (Some ''unexpected end of JSON input'', z) else (None, z\<lparr>Severity := ''ERROR'', State := ''TERMINATED'', Message := ''boom''\<rparr>))" "\<lparr>Severity = ''ERROR'', State = ''TERMINATED'', Message = ''boom''\<rparr>" "(\<lambda>t :: nat. ''2018-11-01 00:00:00 +0000 UTC'')" "(\<lambda>(w :: nat) pl. (Inr ''ok'' :: string + string, Suc w))" "\<lparr>AWS_LAMBDA_FUNCTION_NAME = ''notifier'', slackMonitorChannel = ''#emr'', now_UnixNano = 1541000000123456789\<rparr>" 0]
  by (simp add: zero_EMREventDetail_def)

text \<open>
  C9: the attachment's timestamp is the clock's nanoseconds divided by a second, with
  the quotient truncated, and it is the same whatever the time of the event.
\<close>

theorem Ts_is_clock_in_seconds:
  assumes "Source event = ''aws.emr''"
    and "json_Unmarshal (Detail event) zero_EMREventDetail = (None, d)"
  shows "map (\<lambda>a. sint (Ts a)) (sent_attachments
        (fst (fst (HandleRequest json_Unmarshal time_String send p event w)))) =
      [sint (now_UnixNano p) sdiv 1000000000] \<and>
    (\<forall>t. map Ts (sent_attachments
        (fst (fst (HandleRequest json_Unmarshal time_String send p (event\<lparr>Time := t\<rparr>) w)))) =
      map Ts (sent_attachments
        (fst (fst (HandleRequest json_Unmarshal time_String send p event w)))))"
proof -
  have "Source (event\<lparr>Time := t\<rparr>) = ''aws.emr''"
    and "json_Unmarshal (Detail (event\<lparr>Time := t\<rparr>)) zero_EMREventDetail = (None, d)" for t
    using assms by simp_all
  then have "sent_attachments
      (fst (fst (HandleRequest json_Unmarshal time_String send p (event\<lparr>Time := t\<rparr>) w))) =
      [slackAttachment time_String p (event\<lparr>Time := t\<rparr>) d]" for t
    by (rule sent_attachments_decoded)
  then show ?thesis
    by (simp add: sent_attachments_decoded [of event json_Unmarshal d, OF assms]
        slackAttachment_def sint_int64_div)
qed

theorem Ts_is_clock_in_seconds_witness:
  "map (\<lambda>a. sint (Ts a)) (sent_attachments (fst (fst (HandleRequest (\<lambda>b z. if b = ''{invalid'' then (Some ''unexpected end of JSON input'', z) else (None, z\<lparr>Severity := ''ERROR'', State := ''TERMINATED'', Message := ''boom''\<rparr>)) (\<lambda>t :: nat. ''2018-11-01 00:00:00 +0000 UTC'') (\<lambda>(w :: nat) pl. (Inr ''ok'' :: string + string, Suc w)) \<lparr>AWS_LAMBDA_FUNCTION_NAME = ''notifier'', slackMonitorChannel = ''#emr'', now_UnixNano = 1541000000123456789\<rparr> \<lparr>Source = ''aws.emr'', DetailType = ''EMR Cluster State Change'', AccountID = ''123456789012'', Region = ''us-east-1'', Time = 0 :: nat, Detail = ''{}''\<rparr> 0)))) = [1541000000] \<and>
   map Ts (sent_attachments (fst (fst (HandleRequest (\<lambda>b z. if b = ''{invalid'' then (Some ''unexpected end of JSON input'', z) else (None, z\<lparr>Severity := ''ERROR'', State := ''TERMINATED'', Message := ''boom''\<rparr>)) (\<lambda>t :: nat. ''2018-11-01 00:00:00 +0000 UTC'') (\<lambda>(w :: nat) pl. (Inr ''ok'' :: string + string, Suc w)) \<lparr>AWS_LAMBDA_FUNCTION_NAME = ''notifier'', slackMonitorChannel = ''#emr'', now_UnixNano = 1541000000123456789\<rparr> \<lparr>Source = ''aws.emr'', DetailType = ''EMR Cluster State Change'', AccountID = ''123456789012'', Region = ''us-east-1'', Time = 1234567890 :: nat, Detail = ''{}''\<rparr> 0)))) = map Ts (sent_attachments (fst (fst (HandleRequest (\<lambda>b z. if b = ''{invalid'' then (Some ''unexpected end of JSON input'', z) else (None, z\<lparr>Severity := ''ERROR'', State := ''TERMINATED'', Message := ''boom''\<rparr>)) (\<lambda>t :: nat. ''2018-11-01 00:00:00 +0000 UTC'') (\<lambda>(w :: nat) pl. (Inr ''ok'' :: string + string, Suc w)) \<lparr>AWS_LAMBDA_FUNCTION_NAME = ''notifier'', slackMonitorChannel = ''#emr'', now_UnixNano = 1541000000123456789\<rparr> \<lparr>Source = ''aws.emr'', DetailType = ''EMR Cluster State Change'', AccountID = ''123456789012'', Region = ''us-east-1'', Time = 0 :: nat, Detail = ''{}''\<rparr> 0))))"
  using Ts_is_clock_in_seconds [of "\<lparr>Source = ''aws.emr'', DetailType = ''EMR Cluster State Change'', AccountID = ''123456789012'', Region = ''us-east-1'', Time = 0 :: nat, Detail = ''{}''\<rparr>" "(\<lambda>b z. if b = ''{invalid'' then (Some ''unexpected end of JSON input'', z) else (None, z\<lparr>Severity := ''ERROR'', State := ''TERMINATED'', Message := ''boom''\<rparr>))" "\<lparr>Severity = ''ERROR'', State = ''TERMINATED'', Message = ''boom''\<rparr>" "(\<lambda>t :: nat. ''2018-11-01 00:00:00 +0000 UTC'')" "(\<lambda>(w :: nat) pl. (Inr ''ok'' :: string + string, Suc w))" "\<lparr>AWS_LAMBDA_FUNCTION_NAME = ''notifier'', slackMonitorChannel = ''#emr'', now_UnixNano = 1541000000123456789\<rparr>" 0]
  by (simp add: zero_EMREventDetail_def signed_divide_int_def)

section \<open>Events that send nothing\<close>

text \<open>
  C6: for an event of any other source the list of attachments is empty, the trace is
  the warning alone, no \<^verbatim>\<open>Send\<close> is called and the handler returns \<^verbatim>\<open>nil\<close>.
\<close>

theorem other_source_is_ignored:
  assumes "Source event \<noteq> ''aws.emr''"
  shows "slackAttachments json_Unmarshal time_String p event = Inr [] \<and>
    HandleRequest json_Unmarshal time_String send p event w =
      (([WarningPrintln ''No Slack Sent''], w), None) \<and>
    sends (fst (fst (HandleRequest json_Unmarshal time_String send p event w))) = []"
  by (simp add: HandleRequest_other_source [OF assms])

theorem other_source_is_ignored_witness:
  "slackAttachments (\<lambda>b z. if b = ''{invalid'' then (Some ''unexpected end of JSON input'', z) else (None, z\<lparr>Severity := ''ERROR'', State := ''TERMINATED'', Message := ''boom''\<rparr>)) (\<lambda>t :: nat. ''2018-11-01 00:00:00 +0000 UTC'') \<lparr>AWS_LAMBDA_FUNCTION_NAME = ''notifier'', slackMonitorChannel = ''#emr'', now_UnixNano = 1541000000123456789\<rparr> \<lparr>Source = ''aws.ec2'', DetailType = ''EMR Cluster State Change'', AccountID = ''123456789012'', Region = ''us-east-1'', Time = 0 :: nat, Detail = ''{}''\<rparr> = Inr [] \<and>
   HandleRequest (\<lambda>b z. if b = ''{invalid'' then (Some ''unexpected end of JSON input'', z) else (None, z\<lparr>Severity := ''ERROR'', State := ''TERMINATED'', Message := ''boom''\<rparr>)) (\<lambda>t :: nat. ''2018-11-01 00:00:00 +0000 UTC'') (\<lambda>(w :: nat) pl. (Inr ''ok'' :: string + string, Suc w)) \<lparr>AWS_LAMBDA_FUNCTION_NAME = ''notifier'', slackMonitorChannel = ''#emr'', now_UnixNano = 1541000000123456789\<rparr> \<lparr>Source = ''aws.ec2'', DetailType = ''EMR Cluster State Change'', AccountID = ''123456789012'', Region = ''us-east-1'', Time = 0 :: nat, Detail = ''{}''\<rparr> 0 =
     (([WarningPrintln ''No Slack Sent''], 0), None) \<and>
   sends (fst (fst (HandleRequest (\<lambda>b z. if b = ''{invalid'' then (Some ''unexpected end of JSON input'', z) else (None, z\<lparr>Severity := ''ERROR'', State := ''TERMINATED'', Message := ''boom''\<rparr>)) (\<lambda>t :: nat. ''2018-11-01 00:00:00 +0000 UTC'') (\<lambda>(w :: nat) pl. (Inr ''ok'' :: string + string, Suc w)) \<lparr>AWS_LAMBDA_FUNCTION_NAME = ''notifier'', slackMonitorChannel = ''#emr'', now_UnixNano = 1541000000123456789\<rparr> \<lparr>Source = ''aws.ec2'', DetailType = ''EMR Cluster State Change'', AccountID = ''123456789012'', Region = ''us-east-1'', Time = 0 :: nat, Detail = ''{}''\<rparr> 0))) = []"
  using other_source_is_ignored [of "\<lparr>Source = ''aws.ec2'', DetailType = ''EMR Cluster State Change'', AccountID = ''123456789012'', Region = ''us-east-1'', Time = 0 :: nat, Detail = ''{}''\<rparr>" "(\<lambda>b z. if b = ''{invalid'' then (Some ''unexpected end of JSON input'', z) else (None, z\<lparr>Severity := ''ERROR'', State := ''TERMINATED'', Message := ''boom''\<rparr>))" "(\<lambda>t :: nat. ''2018-11-01 00:00:00 +0000 UTC'')" "\<lparr>AWS_LAMBDA_FUNCTION_NAME = ''notifier'', slackMonitorChannel = ''#emr'', now_UnixNano = 1541000000123456789\<rparr>" "(\<lambda>(w :: nat) pl. (Inr ''ok'' :: string + string, Suc w))" 0]
  by simp

section \<open>One event, at most one call\<close>

text \<open>
  C10: the list of attachments of one invocation has at most one element, so the
  handler calls \<^verbatim>\<open>Send\<close> at most once, with exactly one attachment.
\<close>

theorem at_most_one_send:
  "(\<forall>atts. slackAttachments json_Unmarshal time_String p event = Inr atts \<longrightarrow> length atts \<le> 1) \<and>
   length (sends (fst (fst (HandleRequest json_Unmarshal time_String send p event w)))) \<le> 1 \<and>
   (\<forall>pl \<in> set (sends (fst (fst (HandleRequest json_Unmarshal time_String send p event w)))).
      length (Attachments pl) = 1)"
proof (cases "Source event = ''aws.emr''")
  case emr: True
  obtain e d where u: "json_Unmarshal (Detail event) zero_EMREventDetail = (e, d)"
    by (cases "json_Unmarshal (Detail event) zero_EMREventDetail")
  show ?thesis
  proof (cases e)
    case None
    have "slackAttachments json_Unmarshal time_String p event =
        Inr [slackAttachment time_String p event d]"
      using emr u None by (simp add: slackAttachments_def)
    then show ?thesis
      using emr u None
      by (simp add: HandleRequest_decoded [of event json_Unmarshal d] Let_def sends_log_result)
  next
    case (Some err)
    then show ?thesis
      using emr u by (simp add: HandleRequest_decode_error [of event json_Unmarshal err d])
  qed
next
  case False
  then show ?thesis
    by (simp add: HandleRequest_other_source)
qed

theorem at_most_one_send_witness:
  "slackAttachments (\<lambda>b z. if b = ''{invalid'' then (Some ''unexpected end of JSON input'', z) else (None, z\<lparr>Severity := ''ERROR'', State := ''TERMINATED'', Message := ''boom''\<rparr>)) (\<lambda>t :: nat. ''2018-11-01 00:00:00 +0000 UTC'') \<lparr>AWS_LAMBDA_FUNCTION_NAME = ''notifier'', slackMonitorChannel = ''#emr'', now_UnixNano = 1541000000123456789\<rparr> \<lparr>Source = ''aws.emr'', DetailType = ''EMR Cluster State Change'', AccountID = ''123456789012'', Region = ''us-east-1'', Time = 0 :: nat, Detail = ''{}''\<rparr> = Inr [slackAttachment (\<lambda>t :: nat. ''2018-11-01 00:00:00 +0000 UTC'') \<lparr>AWS_LAMBDA_FUNCTION_NAME = ''notifier'', slackMonitorChannel = ''#emr'', now_UnixNano = 1541000000123456789\<rparr> \<lparr>Source = ''aws.emr'', DetailType = ''EMR Cluster State Change'', AccountID = ''123456789012'', Region = ''us-east-1'', Time = 0 :: nat, Detail = ''{}''\<rparr> \<lparr>Severity = ''ERROR'', State = ''TERMINATED'', Message = ''boom''\<rparr>] \<and>
   length [slackAttachment (\<lambda>t :: nat. ''2018-11-01 00:00:00 +0000 UTC'') \<lparr>AWS_LAMBDA_FUNCTION_NAME = ''notifier'', slackMonitorChannel = ''#emr'', now_UnixNano = 1541000000123456789\<rparr> \<lparr>Source = ''aws.emr'', DetailType = ''EMR Cluster State Change'', AccountID = ''123456789012'', Region = ''us-east-1'', Time = 0 :: nat, Detail = ''{}''\<rparr> \<lparr>Severity = ''ERROR'', State = ''TERMINATED'', Message = ''boom''\<rparr>] \<le> 1 \<and>
   \<lparr>Channel = ''#emr'', Attachments = [slackAttachment (\<lambda>t :: nat. ''2018-11-01 00:00:00 +0000 UTC'') \<lparr>AWS_LAMBDA_FUNCTION_NAME = ''notifier'', slackMonitorChannel = ''#emr'', now_UnixNano = 1541000000123456789\<rparr> \<lparr>Source = ''aws.emr'', DetailType = ''EMR Cluster State Change'', AccountID = ''123456789012'', Region = ''us-east-1'', Time = 0 :: nat, Detail = ''{}''\<rparr> \<lparr>Severity = ''ERROR'', State = ''TERMINATED'', Message = ''boom''\<rparr>]\<rparr> \<in> set (sends (fst (fst (HandleRequest (\<lambda>b z. if b = ''{invalid'' then (Some ''unexpected end of JSON input'', z) else (None, z\<lparr>Severity := ''ERROR'', State := ''TERMINATED'', Message := ''boom''\<rparr>)) (\<lambda>t :: nat. ''2018-11-01 00:00:00 +0000 UTC'') (\<lambda>(w :: nat) pl. (Inr ''ok'' :: string + string, Suc w)) \<lparr>AWS_LAMBDA_FUNCTION_NAME = ''notifier'', slackMonitorChannel = ''#emr'', now_UnixNano = 1541000000123456789\<rparr> \<lparr>Source = ''aws.emr'', DetailType = ''EMR Cluster State Change'', AccountID = ''123456789012'', Region = ''us-east-1'', Time = 0 :: nat, Detail = ''{}''\<rparr> 0)))) \<and>
   length (Attachments \<lparr>Channel = ''#emr'', Attachments = [slackAttachment (\<lambda>t :: nat. ''2018-11-01 00:00:00 +0000 UTC'') \<lparr>AWS_LAMBDA_FUNCTION_NAME = ''notifier'', slackMonitorChannel = ''#emr'', now_UnixNano = 1541000000123456789\<rparr> \<lparr>Source = ''aws.emr'', DetailType = ''EMR Cluster State Change'', AccountID = ''123456789012'', Region = ''us-east-1'', Time = 0 :: nat, Detail = ''{}''\<rparr> \<lparr>Severity = ''ERROR'', State = ''TERMINATED'', Message = ''boom''\<rparr>]\<rparr>) = 1 \<and>
   length (sends (fst (fst (HandleRequest (\<lambda>b z. if b = ''{invalid'' then (Some ''unexpected end of JSON input'', z) else (None, z\<lparr>Severity := ''ERROR'', State := ''TERMINATED'', Message := ''boom''\<rparr>)) (\<lambda>t :: nat. ''2018-11-01 00:00:00 +0000 UTC'') (\<lambda>(w :: nat) pl. (Inr ''ok'' :: string + string, Suc w)) \<lparr>AWS_LAMBDA_FUNCTION_NAME = ''notifier'', slackMonitorChannel = ''#emr'', now_UnixNano = 1541000000123456789\<rparr> \<lparr>Source = ''aws.emr'', DetailType = ''EMR Cluster State Change'', AccountID = ''123456789012'', Region = ''us-east-1'', Time = 0 :: nat, Detail = ''{}''\<rparr> 0)))) \<le> 1"
proof -
  note t = at_most_one_send [of "(\<lambda>b z. if b = ''{invalid'' then (Some ''unexpected end of JSON input'', z) else (None, z\<lparr>Severity := ''ERROR'', State := ''TERMINATED'', Message := ''boom''\<rparr>))" "(\<lambda>t :: nat. ''2018-11-01 00:00:00 +0000 UTC'')" "\<lparr>AWS_LAMBDA_FUNCTION_NAME = ''notifier'', slackMonitorChannel = ''#emr'', now_UnixNano = 1541000000123456789\<rparr>" "\<lparr>Source = ''aws.emr'', DetailType = ''EMR Cluster State Change'', AccountID = ''123456789012'', Region = ''us-east-1'', Time = 0 :: nat, Detail = ''{}''\<rparr>" "(\<lambda>(w :: nat) pl. (Inr ''ok'' :: string + string, Suc w))" 0]
  have u: "(\<lambda>b z. if b = ''{invalid'' then (Some ''unexpected end of JSON input'', z) else (None, z\<lparr>Severity := ''ERROR'', State := ''TERMINATED'', Message := ''boom''\<rparr>)) (Detail \<lparr>Source = ''aws.emr'', DetailType = ''EMR Cluster State Change'', AccountID = ''123456789012'', Region = ''us-east-1'', Time = 0 :: nat, Detail = ''{}''\<rparr>) zero_EMREventDetail = (None, \<lparr>Severity = ''ERROR'', State = ''TERMINATED'', Message = ''boom''\<rparr>)"
    by (simp add: zero_EMREventDetail_def)
  have a: "slackAttachments (\<lambda>b z. if b = ''{invalid'' then (Some ''unexpected end of JSON input'', z) else (None, z\<lparr>Severity := ''ERROR'', State := ''TERMINATED'', Message := ''boom''\<rparr>)) (\<lambda>t :: nat. ''2018-11-01 00:00:00 +0000 UTC'') \<lparr>AWS_LAMBDA_FUNCTION_NAME = ''notifier'', slackMonitorChannel = ''#emr'', now_UnixNano = 1541000000123456789\<rparr> \<lparr>Source = ''aws.emr'', DetailType = ''EMR Cluster State Change'', AccountID = ''123456789012'', Region = ''us-east-1'', Time = 0 :: nat, Detail = ''{}''\<rparr> = Inr [slackAttachment (\<lambda>t :: nat. ''2018-11-01 00:00:00 +0000 UTC'') \<lparr>AWS_LAMBDA_FUNCTION_NAME = ''notifier'', slackMonitorChannel = ''#emr'', now_UnixNano = 1541000000123456789\<rparr> \<lparr>Source = ''aws.emr'', DetailType = ''EMR Cluster State Change'', AccountID = ''123456789012'', Region = ''us-east-1'', Time = 0 :: nat, Detail = ''{}''\<rparr> \<lparr>Severity = ''ERROR'', State = ''TERMINATED'', Message = ''boom''\<rparr>]"
    by (simp add: slackAttachments_def zero_EMREventDetail_def)
  have "HandleRequest (\<lambda>b z. if b = ''{invalid'' then (Some ''unexpected end of JSON input'', z) else (None, z\<lparr>Severity := ''ERROR'', State := ''TERMINATED'', Message := ''boom''\<rparr>)) (\<lambda>t :: nat. ''2018-11-01 00:00:00 +0000 UTC'') (\<lambda>(w :: nat) pl. (Inr ''ok'' :: string + string, Suc w)) \<lparr>AWS_LAMBDA_FUNCTION_NAME = ''notifier'', slackMonitorChannel = ''#emr'', now_UnixNano = 1541000000123456789\<rparr> \<lparr>Source = ''aws.emr'', DetailType = ''EMR Cluster State Change'', AccountID = ''123456789012'', Region = ''us-east-1'', Time = 0 :: nat, Detail = ''{}''\<rparr> 0 =
      (([SendCall \<lparr>Channel = ''#emr'', Attachments = [slackAttachment (\<lambda>t :: nat. ''2018-11-01 00:00:00 +0000 UTC'') \<lparr>AWS_LAMBDA_FUNCTION_NAME = ''notifier'', slackMonitorChannel = ''#emr'', now_UnixNano = 1541000000123456789\<rparr> \<lparr>Source = ''aws.emr'', DetailType = ''EMR Cluster State Change'', AccountID = ''123456789012'', Region = ''us-east-1'', Time = 0 :: nat, Detail = ''{}''\<rparr> \<lparr>Severity = ''ERROR'', State = ''TERMINATED'', Message = ''boom''\<rparr>]\<rparr>, InfoPrintln ''ok''], 1), None)"
    using HandleRequest_decoded [of "\<lparr>Source = ''aws.emr'', DetailType = ''EMR Cluster State Change'', AccountID = ''123456789012'', Region = ''us-east-1'', Time = 0 :: nat, Detail = ''{}''\<rparr>" "(\<lambda>b z. if b = ''{invalid'' then (Some ''unexpected end of JSON input'', z) else (None, z\<lparr>Severity := ''ERROR'', State := ''TERMINATED'', Message := ''boom''\<rparr>))" "\<lparr>Severity = ''ERROR'', State = ''TERMINATED'', Message = ''boom''\<rparr>" "(\<lambda>t :: nat. ''2018-11-01 00:00:00 +0000 UTC'')" "(\<lambda>(w :: nat) pl. (Inr ''ok'' :: string + string, Suc w))" "\<lparr>AWS_LAMBDA_FUNCTION_NAME = ''notifier'', slackMonitorChannel = ''#emr'', now_UnixNano = 1541000000123456789\<rparr>" 0] u
    by (simp add: Let_def log_result_def)
  then have b: "\<lparr>Channel = ''#emr'', Attachments = [slackAttachment (\<lambda>t :: nat. ''2018-11-01 00:00:00 +0000 UTC'') \<lparr>AWS_LAMBDA_FUNCTION_NAME = ''notifier'', slackMonitorChannel = ''#emr'', now_UnixNano = 1541000000123456789\<rparr> \<lparr>Source = ''aws.emr'', DetailType = ''EMR Cluster State Change'', AccountID = ''123456789012'', Region = ''us-east-1'', Time = 0 :: nat, Detail = ''{}''\<rparr> \<lparr>Severity = ''ERROR'', State = ''TERMINATED'', Message = ''boom''\<rparr>]\<rparr> \<in> set (sends (fst (fst (HandleRequest (\<lambda>b z. if b = ''{invalid'' then (Some ''unexpected end of JSON input'', z) else (None, z\<lparr>Severity := ''ERROR'', State := ''TERMINATED'', Message := ''boom''\<rparr>)) (\<lambda>t :: nat. ''2018-11-01 00:00:00 +0000 UTC'') (\<lambda>(w :: nat) pl. (Inr ''ok'' :: string + string, Suc w)) \<lparr>AWS_LAMBDA_FUNCTION_NAME = ''notifier'', slackMonitorChannel = ''#emr'', now_UnixNano = 1541000000123456789\<rparr> \<lparr>Source = ''aws.emr'', DetailType = ''EMR Cluster State Change'', AccountID = ''123456789012'', Region = ''us-east-1'', Time = 0 :: nat, Detail = ''{}''\<rparr> 0))))"
    by simp
  from t a b show ?thesis
    by blast
qed

end
